theory Spec2Isabelle
  imports Complex_Main "HOL-Library.Sublist"
begin

section \<open>The quote document store\<close>

text \<open>
  Both the web application (\<^verbatim>\<open>QuoteTrackingService.ts\<close>) and the background poller
  (\<^verbatim>\<open>ReminderAutomationService.cjs\<close>) work on the Firestore collection
  \<^verbatim>\<open>cotizaciones\<close>. A document is a record of optional fields: \<open>None\<close> stands for a
  field that is absent or \<^verbatim>\<open>null\<close>. Instants are integers (milliseconds since the epoch),
  except \<open>proximoSeguimiento\<close>, a Firestore timestamp of which the poller reads the
  \<^verbatim>\<open>seconds\<close>. The store is taken to be reliable: a read returns what was written and a
  write to an existing document takes effect.
\<close>

datatype QuoteStatus =
  BORRADOR | ENVIADA | REVISADA | APROBADA | RECHAZADA | VENCIDA | CONVERTIDA

record QuoteStatusChange =
  estadoAnterior :: QuoteStatus
  estadoNuevo :: QuoteStatus
  fecha :: int
  usuario :: "string option"
  comentario :: "string option"
  automatico :: bool

record cotizacion_doc =
  numero :: "string option"
  clienteNombre :: "string option"
  estado :: "QuoteStatus option"
  historialCambios :: "QuoteStatusChange list option"
  fechaEnvio :: "int option"
  fechaRevision :: "int option"
  fechaAprobacion :: "int option"
  updatedAt :: "int option"
  proximoSeguimiento :: "int option"
  proximoSeguimientoTipo :: "string option"
  proximoSeguimientoMensaje :: "string option"
  proximoSeguimientoEmail :: "bool option"
  proximoSeguimientoPush :: "bool option"
  proximoSeguimientoUsuario :: "string option"
  proximoSeguimientoDestinatarios :: "string list option"

type_synonym cotizaciones = "(string \<times> cotizacion_doc) list"

text \<open>
  \<^verbatim>\<open>updateDoc(doc(db, "cotizaciones", id), data)\<close> changes the fields named in
  \<^verbatim>\<open>data\<close> of the document with that id and fails when there is no such document.
\<close>

definition updateDoc ::
  "cotizaciones \<Rightarrow> string \<Rightarrow> (cotizacion_doc \<Rightarrow> cotizacion_doc) \<Rightarrow> cotizaciones option" where
  "updateDoc docs i upd =
     (if map_of docs i = None then None
      else Some (map (\<lambda>(k, d). if k = i then (k, upd d) else (k, d)) docs))"

section \<open>Quote status lifecycle (QuoteTrackingService.ts)\<close>

text \<open>
  \<open>QuoteTracking\<close> is the in-memory view built by \<^verbatim>\<open>mapDocumentToQuoteTracking\<close>,
  with the fields that \<^verbatim>\<open>updateStatus\<close> reads.
\<close>

record QuoteTracking =
  qt_id :: string
  qt_numero :: string
  qt_estado :: QuoteStatus
  qt_historialCambios :: "QuoteStatusChange list"

definition mapDocumentToQuoteTracking :: "string \<Rightarrow> cotizacion_doc \<Rightarrow> QuoteTracking" where
  "mapDocumentToQuoteTracking i d =
     \<lparr> qt_id = i,
       qt_numero = (case numero d of None \<Rightarrow> ''COT-'' @ i
                    | Some n \<Rightarrow> if n = [] then ''COT-'' @ i else n),
       qt_estado = (case estado d of None \<Rightarrow> BORRADOR | Some e \<Rightarrow> e),
       qt_historialCambios = (case historialCambios d of None \<Rightarrow> [] | Some h \<Rightarrow> h) \<rparr>"

text \<open>The in-process cache of \<^verbatim>\<open>cache.ts\<close>: entries expire \<open>ttl\<close> after they were set.\<close>

record cache_entry =
  ce_data :: QuoteTracking
  ce_timestamp :: int
  ce_ttl :: int

type_synonym simple_cache = "string \<Rightarrow> cache_entry option"

definition cache_get :: "int \<Rightarrow> simple_cache \<Rightarrow> string \<Rightarrow> QuoteTracking option \<times> simple_cache" where
  "cache_get now c k =
     (case c k of
        None \<Rightarrow> (None, c)
      | Some e \<Rightarrow>
          if now - ce_timestamp e > ce_ttl e then (None, c(k := None))
          else (Some (ce_data e), c))"

definition CACHE_TTL :: int where
  "CACHE_TTL = 5 * 60 * 1000"

definition cache_set :: "int \<Rightarrow> simple_cache \<Rightarrow> string \<Rightarrow> QuoteTracking \<Rightarrow> int \<Rightarrow> simple_cache" where
  "cache_set now c k v ttl = c(k \<mapsto> \<lparr> ce_data = v, ce_timestamp = now, ce_ttl = ttl \<rparr>)"

fun str_includes :: "string \<Rightarrow> string \<Rightarrow> bool" where
  "str_includes [] pat = (pat = [])"
| "str_includes (c # cs) pat = (prefix pat (c # cs) \<or> str_includes cs pat)"

definition invalidateRelatedCache :: "string \<Rightarrow> simple_cache \<Rightarrow> simple_cache" where
  "invalidateRelatedCache ty c =
     (\<lambda>k. if prefix ty k \<or> str_includes k (ty @ ''-'') then None else c k)"

record tracking_state =
  db :: cotizaciones
  cache :: simple_cache

definition invalidateCache :: "tracking_state \<Rightarrow> string \<Rightarrow> tracking_state" where
  "invalidateCache s quoteId =
     (let c1 = invalidateRelatedCache ''quote'' (cache s);
          c2 = (if quoteId \<noteq> [] then c1((''quote-tracking-'' @ quoteId) := None) else c1);
          c3 = c2(''quotes-tracking-all'' := None);
          c4 = c3(''tracking-stats'' := None)
      in s\<lparr>cache := c4\<rparr>)"

definition getByIdWithTracking ::
  "int \<Rightarrow> tracking_state \<Rightarrow> string \<Rightarrow> QuoteTracking option \<times> tracking_state" where
  "getByIdWithTracking now s i =
     (let cacheKey = ''quote-tracking-'' @ i in
      case cache_get now (cache s) cacheKey of
        (Some q, c1) \<Rightarrow> (Some q, s\<lparr>cache := c1\<rparr>)
      | (None, c1) \<Rightarrow>
          (case map_of (db s) i of
             None \<Rightarrow> (None, s\<lparr>cache := c1\<rparr>)
           | Some d \<Rightarrow>
               let quote = mapDocumentToQuoteTracking i d
               in (Some quote, s\<lparr>cache := cache_set now c1 cacheKey quote CACHE_TTL\<rparr>)))"

definition transicionesValidas :: "QuoteStatus \<Rightarrow> QuoteStatus list" where
  "transicionesValidas e =
     (case e of
        BORRADOR \<Rightarrow> [ENVIADA, RECHAZADA]
      | ENVIADA \<Rightarrow> [REVISADA, RECHAZADA, VENCIDA]
      | REVISADA \<Rightarrow> [APROBADA, RECHAZADA, VENCIDA]
      | APROBADA \<Rightarrow> [CONVERTIDA]
      | RECHAZADA \<Rightarrow> [BORRADOR]
      | VENCIDA \<Rightarrow> [BORRADOR]
      | CONVERTIDA \<Rightarrow> [])"

definition isValidStatusTransition :: "QuoteStatus \<Rightarrow> QuoteStatus \<Rightarrow> bool" where
  "isValidStatusTransition estadoActual nuevoEstado =
     (nuevoEstado \<in> set (transicionesValidas estadoActual))"

text \<open>
  The errors \<^verbatim>\<open>updateStatus\<close> throws: the quote is not found, the transition is not
  allowed (\<^verbatim>\<open>No se puede cambiar de X a Y\<close>), or the store rejects the write.
\<close>

datatype tracking_error =
  NotFound
| InvalidTransition QuoteStatus QuoteStatus
| StoreError

text \<open>
  The fields \<^verbatim>\<open>updateData\<close> carries: the new status, the update time and the milestone
  date of the new status. The source builds \<^verbatim>\<open>historialActualizado\<close> as well, and the
  model keeps that binding as the source has it.
\<close>

definition updateData :: "int \<Rightarrow> QuoteStatus \<Rightarrow> cotizacion_doc \<Rightarrow> cotizacion_doc" where
  "updateData now nuevoEstado d =
     (let d1 = d\<lparr>estado := Some nuevoEstado, updatedAt := Some now\<rparr>
      in case nuevoEstado of
           ENVIADA \<Rightarrow> d1\<lparr>fechaEnvio := Some now\<rparr>
         | REVISADA \<Rightarrow> d1\<lparr>fechaRevision := Some now\<rparr>
         | APROBADA \<Rightarrow> d1\<lparr>fechaAprobacion := Some now\<rparr>
         | _ \<Rightarrow> d1)"

definition updateStatus ::
  "int \<Rightarrow> tracking_state \<Rightarrow> string \<Rightarrow> QuoteStatus \<Rightarrow> string option \<Rightarrow> string option
     \<Rightarrow> (tracking_error + unit) \<times> tracking_state" where
  "updateStatus now s i nuevoEstado coment usr =
     (case getByIdWithTracking now s i of
        (None, s1) \<Rightarrow> (Inl NotFound, s1)
      | (Some cotizacionActual, s1) \<Rightarrow>
          let anterior = qt_estado cotizacionActual in
          if \<not> isValidStatusTransition anterior nuevoEstado
          then (Inl (InvalidTransition anterior nuevoEstado), s1)
          else
            let cambio = \<lparr> estadoAnterior = anterior, estadoNuevo = nuevoEstado, fecha = now,
                           usuario = usr, comentario = coment, automatico = False \<rparr>;
                historialActualizado = qt_historialCambios cotizacionActual @ [cambio]
            in case updateDoc (db s1) i (updateData now nuevoEstado) of
                 None \<Rightarrow> (Inl StoreError, s1)
               | Some docs \<Rightarrow> (Inr (), invalidateCache (s1\<lparr>db := docs\<rparr>) i))"


section \<open>The JavaScript runtime: strings, numbers and dates\<close>

text \<open>
  The helpers below stand for the built-in operations the source calls. Strings are lists
  of ASCII characters; \<^verbatim>\<open>\s\<close> and \<^verbatim>\<open>trim\<close> recognise the ASCII white space and
  \<^verbatim>\<open>toUpperCase\<close> maps the letters a to z.
\<close>

definition isWhitespace :: "char \<Rightarrow> bool" where
  "isWhitespace c = (c \<in> set [CHR '' '', CHR 0x09, CHR 0x0A, CHR 0x0B, CHR 0x0C, CHR 0x0D])"


definition removeWhitespace :: "string \<Rightarrow> string" where
  "removeWhitespace s = filter (\<lambda>c. \<not> isWhitespace c) s"

definition upperChar :: "char \<Rightarrow> char" where
  "upperChar c =
     (let n = (of_char c :: nat)
      in if 97 \<le> n \<and> n \<le> 122 then char_of (n - 32) else c)"

definition toUpperCase :: "string \<Rightarrow> string" where
  "toUpperCase s = map upperChar s"

definition removeDashes :: "string \<Rightarrow> string" where
  "removeDashes s = filter (\<lambda>c. c \<noteq> CHR ''-'') s"

definition isDigit :: "char \<Rightarrow> bool" where
  "isDigit c = (c \<in> set ''0123456789'')"

definition digitVal :: "char \<Rightarrow> int" where
  "digitVal c = int (of_char c) - 48"

fun digitsVal :: "int \<Rightarrow> string \<Rightarrow> int" where
  "digitsVal acc [] = acc"
| "digitsVal acc (c # cs) = digitsVal (acc * 10 + digitVal c) cs"

function string_of_nat :: "nat \<Rightarrow> string" where
  "string_of_nat n =
     (if n < 10 then [char_of (48 + n)]
      else string_of_nat (n div 10) @ [char_of (48 + n mod 10)])"
  by pat_completeness auto
termination
  by (relation "measure (\<lambda>n. n)") auto

definition string_of_int :: "int \<Rightarrow> string" where
  "string_of_int k = (if k < 0 then CHR ''-'' # string_of_nat (nat (- k)) else string_of_nat (nat k))"

definition padStart :: "nat \<Rightarrow> char \<Rightarrow> string \<Rightarrow> string" where
  "padStart n c s = replicate (n - length s) c @ s"

text \<open>\<^verbatim>\<open>Math.round\<close> rounds to the nearest integer, halves upwards.\<close>

definition Math_round :: "rat \<Rightarrow> int" where
  "Math_round x = \<lfloor>x + 1 / 2\<rfloor>"

text \<open>
  A \<^verbatim>\<open>Date\<close> holds a time value, the milliseconds since the epoch in UTC, or
  \<^verbatim>\<open>NaN\<close> (an invalid date), here \<open>None\<close>. The calendar is the proleptic Gregorian one.
  The host is described by its time zone, a fixed offset of local time from UTC in
  minutes, and by what its \<^verbatim>\<open>Date.parse\<close> answers on strings outside the ISO format,
  which the language leaves to the implementation.
\<close>

type_synonym jsdate = "int option"

record js_host =
  tzMinutes :: int
  legacyDateParse :: "string \<Rightarrow> int option"

definition msPerDay :: int where
  "msPerDay = 86400000"

definition TimeClip :: "int \<Rightarrow> jsdate" where
  "TimeClip t = (if \<bar>t\<bar> \<le> 8640000000000000 then Some t else None)"

definition LocalTime :: "js_host \<Rightarrow> int \<Rightarrow> int" where
  "LocalTime h t = t + tzMinutes h * 60000"

definition UTC_of_local :: "js_host \<Rightarrow> int \<Rightarrow> int" where
  "UTC_of_local h t = t - tzMinutes h * 60000"

definition Day :: "int \<Rightarrow> int" where
  "Day t = t div msPerDay"

definition TimeWithinDay :: "int \<Rightarrow> int" where
  "TimeWithinDay t = t mod msPerDay"

definition days_from_civil :: "int \<Rightarrow> int \<Rightarrow> int \<Rightarrow> int" where
  "days_from_civil y m d =
     (let y1 = (if m \<le> 2 then y - 1 else y);
          era = y1 div 400;
          yoe = y1 mod 400;
          mp = (if m > 2 then m - 3 else m + 9);
          doy = (153 * mp + 2) div 5 + d - 1;
          doe = yoe * 365 + yoe div 4 - yoe div 100 + doy
      in era * 146097 + doe - 719468)"

definition civil_from_days :: "int \<Rightarrow> int \<times> int \<times> int" where
  "civil_from_days z =
     (let z1 = z + 719468;
          era = z1 div 146097;
          doe = z1 mod 146097;
          yoe = (doe - doe div 1460 + doe div 36524 - doe div 146096) div 365;
          doy = doe - (365 * yoe + yoe div 4 - yoe div 100);
          mp = (5 * doy + 2) div 153;
          d = doy - (153 * mp + 2) div 5 + 1;
          m = (if mp < 10 then mp + 3 else mp - 9);
          y = yoe + era * 400
      in (if m \<le> 2 then y + 1 else y, m, d))"

definition YearFromTime :: "int \<Rightarrow> int" where
  "YearFromTime t = fst (civil_from_days (Day t))"

definition MonthFromTime :: "int \<Rightarrow> int" where
  "MonthFromTime t = fst (snd (civil_from_days (Day t))) - 1"

definition DateFromTime :: "int \<Rightarrow> int" where
  "DateFromTime t = snd (snd (civil_from_days (Day t)))"

definition isLeapYear :: "int \<Rightarrow> bool" where
  "isLeapYear y = (y mod 4 = 0 \<and> (y mod 100 \<noteq> 0 \<or> y mod 400 = 0))"

definition daysInMonth :: "int \<Rightarrow> int \<Rightarrow> int" where
  "daysInMonth y m =
     (if m = 2 then (if isLeapYear y then 29 else 28)
      else if m \<in> {4, 6, 9, 11} then 30 else 31)"

definition getFullYear :: "js_host \<Rightarrow> jsdate \<Rightarrow> int option" where
  "getFullYear h dt = map_option (\<lambda>t. YearFromTime (LocalTime h t)) dt"

definition getMonth :: "js_host \<Rightarrow> jsdate \<Rightarrow> int option" where
  "getMonth h dt = map_option (\<lambda>t. MonthFromTime (LocalTime h t)) dt"

definition getDate :: "js_host \<Rightarrow> jsdate \<Rightarrow> int option" where
  "getDate h dt = map_option (\<lambda>t. DateFromTime (LocalTime h t)) dt"

text \<open>\<^verbatim>\<open>setHours(0, 0, 0, 0)\<close>: the start of the local day of the date.\<close>

definition setHours0 :: "js_host \<Rightarrow> jsdate \<Rightarrow> jsdate" where
  "setHours0 h dt =
     (case dt of
        None \<Rightarrow> None
      | Some t \<Rightarrow> TimeClip (UTC_of_local h (Day (LocalTime h t) * msPerDay)))"

text \<open>
  \<^verbatim>\<open>Date.parse\<close> on the two ISO forms the helpers meet: the date alone, which is UTC
  midnight, and date and time without a zone, which is local time. A string of neither
  form, or one that names no day of the calendar, goes to the host's own parser.
\<close>

definition matchesYMD :: "string \<Rightarrow> bool" where
  "matchesYMD s =
     (length s = 10 \<and> (\<forall>i \<in> {0, 1, 2, 3, 5, 6, 8, 9}. isDigit (s ! i))
      \<and> s ! 4 = CHR ''-'' \<and> s ! 7 = CHR ''-'')"

definition matchesHMS :: "string \<Rightarrow> bool" where
  "matchesHMS s =
     (length s = 9 \<and> s ! 0 = CHR ''T'' \<and> (\<forall>i \<in> {1, 2, 4, 5, 7, 8}. isDigit (s ! i))
      \<and> s ! 3 = CHR '':'' \<and> s ! 6 = CHR '':'')"

definition parseYMD :: "string \<Rightarrow> int option" where
  "parseYMD s =
     (let y = digitsVal 0 (take 4 s);
          m = digitsVal 0 (take 2 (drop 5 s));
          d = digitsVal 0 (take 2 (drop 8 s))
      in if 1 \<le> m \<and> m \<le> 12 \<and> 1 \<le> d \<and> d \<le> daysInMonth y m
         then Some (days_from_civil y m d * msPerDay) else None)"

definition parseHMS :: "string \<Rightarrow> int option" where
  "parseHMS s =
     (let hh = digitsVal 0 (take 2 (drop 1 s));
          mi = digitsVal 0 (take 2 (drop 4 s));
          ss = digitsVal 0 (take 2 (drop 7 s))
      in if hh \<le> 23 \<and> mi \<le> 59 \<and> ss \<le> 59
         then Some (hh * 3600000 + mi * 60000 + ss * 1000) else None)"

definition Date_parse :: "js_host \<Rightarrow> string \<Rightarrow> jsdate" where
  "Date_parse h s =
     (if matchesYMD s then
        (case parseYMD s of Some t \<Rightarrow> Some t | None \<Rightarrow> legacyDateParse h s)
      else if matchesYMD (take 10 s) \<and> matchesHMS (drop 10 s) then
        (case (parseYMD (take 10 s), parseHMS (drop 10 s)) of
           (Some t, Some u) \<Rightarrow> Some (UTC_of_local h (t + u))
         | _ \<Rightarrow> legacyDateParse h s)
      else legacyDateParse h s)"

text \<open>The values a date field of a quote can hold, and \<^verbatim>\<open>new Date(v)\<close> on them.\<close>

datatype js_value =
  JUndefined | JNull | JNumber int | JString string | JDateObj jsdate

definition truthy :: "js_value \<Rightarrow> bool" where
  "truthy v =
     (case v of
        JUndefined \<Rightarrow> False
      | JNull \<Rightarrow> False
      | JNumber n \<Rightarrow> n \<noteq> 0
      | JString s \<Rightarrow> s \<noteq> []
      | JDateObj _ \<Rightarrow> True)"

definition Date_new :: "js_host \<Rightarrow> js_value \<Rightarrow> jsdate" where
  "Date_new h v =
     (case v of
        JUndefined \<Rightarrow> None
      | JNull \<Rightarrow> Some 0
      | JNumber n \<Rightarrow> TimeClip n
      | JString s \<Rightarrow> Date_parse h s
      | JDateObj dt \<Rightarrow> dt)"

text \<open>\<^verbatim>\<open>toISOString\<close> throws a \<^verbatim>\<open>RangeError\<close> on an invalid date.\<close>

datatype js_error = TypeError | RangeError

definition pad2 :: "int \<Rightarrow> string" where
  "pad2 k = padStart 2 (CHR ''0'') (string_of_int k)"

definition isoYear :: "int \<Rightarrow> string" where
  "isoYear y =
     (if 0 \<le> y \<and> y \<le> 9999 then padStart 4 (CHR ''0'') (string_of_int y)
      else (if y < 0 then CHR ''-'' else CHR ''+'') # padStart 6 (CHR ''0'') (string_of_int \<bar>y\<bar>))"

definition toISOString :: "jsdate \<Rightarrow> js_error + string" where
  "toISOString dt =
     (case dt of
        None \<Rightarrow> Inl RangeError
      | Some t \<Rightarrow>
          let w = TimeWithinDay t
          in Inr (isoYear (YearFromTime t) @ ''-'' @ pad2 (MonthFromTime t + 1) @ ''-''
                  @ pad2 (DateFromTime t) @ ''T'' @ pad2 (w div 3600000) @ '':''
                  @ pad2 (w mod 3600000 div 60000) @ '':'' @ pad2 (w mod 60000 div 1000)
                  @ ''.'' @ padStart 3 (CHR ''0'') (string_of_int (w mod 1000)) @ ''Z''))"

section \<open>Date helpers (DateHelper)\<close>

text \<open>
  \<^verbatim>\<open>safeParseDate\<close> answers \<^verbatim>\<open>null\<close> (\<open>None\<close>) or a date object, which may itself be
  invalid when the input has the shape \<^verbatim>\<open>YYYY-MM-DD\<close>.
\<close>

definition safeParseDate :: "js_host \<Rightarrow> js_value \<Rightarrow> jsdate option" where
  "safeParseDate h dateStr =
     (if \<not> truthy dateStr then None
      else case dateStr of
             JDateObj dt \<Rightarrow> Some dt
           | JString s \<Rightarrow>
               if matchesYMD s then Some (Date_new h (JString (s @ ''T12:00:00'')))
               else (case Date_new h (JString s) of None \<Rightarrow> None | Some t \<Rightarrow> Some (Some t))
           | _ \<Rightarrow> (case Date_new h dateStr of None \<Rightarrow> None | Some t \<Rightarrow> Some (Some t)))"

text \<open>
  \<^verbatim>\<open>calculateDurationInDays\<close>: with an invalid date the difference is \<^verbatim>\<open>NaN\<close>, the
  test \<^verbatim>\<open>diffDays > 0\<close> fails and the answer is 1.
\<close>

definition calculateDurationInDays :: "js_host \<Rightarrow> js_value \<Rightarrow> js_value \<Rightarrow> int" where
  "calculateDurationInDays h startDate endDate =
     (let startD = setHours0 h (Date_new h startDate);
          endD = setHours0 h (Date_new h endDate)
      in case (startD, endD) of
           (Some s, Some e) \<Rightarrow>
             let diffDays = Math_round (of_int (e - s) / of_int (1000 * 60 * 60 * 24)) + 1
             in if diffDays > 0 then diffDays else 1
         | _ \<Rightarrow> 1)"

definition formatDateToYYYYMMDD :: "js_host \<Rightarrow> jsdate \<Rightarrow> string" where
  "formatDateToYYYYMMDD h dt =
     (case dt of
        None \<Rightarrow> ''NaN-NaN-NaN''
      | Some t \<Rightarrow>
          string_of_int (YearFromTime (LocalTime h t)) @ ''-''
          @ pad2 (MonthFromTime (LocalTime h t) + 1) @ ''-''
          @ pad2 (DateFromTime (LocalTime h t)))"

definition getCurrentDateString :: "js_host \<Rightarrow> int \<Rightarrow> string" where
  "getCurrentDateString h now = formatDateToYYYYMMDD h (Some now)"

text \<open>The inclusive day count as the specification words it, on the local day numbers.\<close>

definition spec_durationInDays :: "js_host \<Rightarrow> int \<Rightarrow> int \<Rightarrow> int" where
  "spec_durationInDays h s e =
     max 1 ((Day (LocalTime h e) * msPerDay - Day (LocalTime h s) * msPerDay) div msPerDay + 1)"

section \<open>Quote helpers (QuoteHelper)\<close>

record Quote =
  q_numero :: "string option"
  q_titulo :: "string option"
  q_created_at :: js_value
  q_createdAt :: js_value

record Client =
  c_id :: string
  c_nombre :: string
  c_empresa :: "string option"

definition PLACEHOLDER_MARK :: string where
  "PLACEHOLDER_MARK = ''mvG2cFN4sBXIfjxxnYAL''"

definition orDefault :: "string option \<Rightarrow> string \<Rightarrow> string" where
  "orDefault v dflt = (case v of None \<Rightarrow> dflt | Some s \<Rightarrow> if s = [] then dflt else s)"

text \<open>
  The body of the \<^verbatim>\<open>try\<close> block of \<^verbatim>\<open>generateQuoteNumber\<close>: reading a field of a
  \<^verbatim>\<open>null\<close> quote is a \<^verbatim>\<open>TypeError\<close>, and \<^verbatim>\<open>toISOString\<close> of an invalid creation
  date a \<^verbatim>\<open>RangeError\<close>.
\<close>

definition generateQuoteNumber_try ::
  "js_host \<Rightarrow> int \<Rightarrow> Quote option \<Rightarrow> Client option \<Rightarrow> js_error + string" where
  "generateQuoteNumber_try h now cotizacion cliente =
     (case cotizacion of
        None \<Rightarrow> Inl TypeError
      | Some q \<Rightarrow>
          let generated =
            (let fechaCreacion =
                   (if truthy (q_created_at q) then Date_new h (q_created_at q)
                    else Date_new h (if truthy (q_createdAt q) then q_createdAt q
                                     else JNumber now))
             in case toISOString fechaCreacion of
                  Inl e \<Rightarrow> Inl e
                | Inr isoStr \<Rightarrow>
                    let fechaFormateada = removeDashes (take 10 isoStr);
                        nombreCliente =
                          toUpperCase (take 10 (removeWhitespace
                            (orDefault (map_option c_nombre cliente) ''CLIENTE'')));
                        eventoNombre =
                          toUpperCase (take 10 (removeWhitespace
                            (orDefault (q_titulo q) ''EVENTO'')));
                        numeroSecuencial = ''001''
                    in Inr (''COT-'' @ numeroSecuencial @ ''-'' @ fechaFormateada @ ''-''
                            @ nombreCliente @ ''-'' @ eventoNombre))
          in case q_numero q of
               None \<Rightarrow> generated
             | Some n \<Rightarrow>
                 if n \<noteq> [] \<and> \<not> str_includes n PLACEHOLDER_MARK then Inr n else generated)"

definition generateQuoteNumber :: "js_host \<Rightarrow> int \<Rightarrow> Quote option \<Rightarrow> Client option \<Rightarrow> string" where
  "generateQuoteNumber h now cotizacion cliente =
     (case generateQuoteNumber_try h now cotizacion cliente of
        Inr s \<Rightarrow> s
      | Inl _ \<Rightarrow>
          ''COT-001-'' @ removeDashes (getCurrentDateString h now) @ ''-CLIENTE-EVENTO'')"

text \<open>
  Amounts are exact rationals. A missing, \<^verbatim>\<open>null\<close> or zero quantity counts as 0, and the
  price is \<^verbatim>\<open>precio_unitario\<close>, or \<^verbatim>\<open>precioBase\<close> when that one is missing or zero.
\<close>

record QuoteItem =
  cantidad :: "rat option"
  precio_unitario :: "rat option"
  precioBase :: "rat option"


definition numOrZero :: "rat option \<Rightarrow> rat" where
  "numOrZero v = (case v of None \<Rightarrow> 0 | Some x \<Rightarrow> x)"

definition itemPrecio :: "QuoteItem \<Rightarrow> rat" where
  "itemPrecio item =
     (if numOrZero (precio_unitario item) \<noteq> 0 then numOrZero (precio_unitario item)
      else numOrZero (precioBase item))"


definition rawSubtotal :: "QuoteItem list \<Rightarrow> rat" where
  "rawSubtotal items =
     foldl (\<lambda>acc item. acc + numOrZero (cantidad item) * itemPrecio item) 0 items"


section \<open>Users that receive notifications (UserManagementService.cjs)\<close>






section \<open>The reminder poller (ReminderAutomationService.cjs)\<close>










section \<open>Notions used in the statements\<close>




section \<open>Example data\<close>

definition ex_borrador :: cotizacion_doc where
  "ex_borrador =
     \<lparr> numero = Some ''COT-001-20240305-ACMECORP-GALAANUAL'', clienteNombre = Some ''Acme Corp'',
       estado = Some BORRADOR, historialCambios = Some [],
       fechaEnvio = None, fechaRevision = None, fechaAprobacion = None, updatedAt = None,
       proximoSeguimiento = None, proximoSeguimientoTipo = None,
       proximoSeguimientoMensaje = None, proximoSeguimientoEmail = None,
       proximoSeguimientoPush = None, proximoSeguimientoUsuario = None,
       proximoSeguimientoDestinatarios = None \<rparr>"

definition ex_tracking :: tracking_state where
  "ex_tracking = \<lparr> db = [(''q1'', ex_borrador)], cache = (\<lambda>k. None) \<rparr>"









text \<open>A host three hours west of UTC whose own parser understands nothing.\<close>

definition ex_host :: js_host where
  "ex_host = \<lparr> tzMinutes = -180, legacyDateParse = (\<lambda>s. None) \<rparr>"

definition ex_quote :: Quote where
  "ex_quote = \<lparr> q_numero = None, q_titulo = Some ''Gala Anual'',
                 q_created_at = JString ''2024-03-05'', q_createdAt = JUndefined \<rparr>"

definition ex_client :: Client where
  "ex_client = \<lparr> c_id = ''c1'', c_nombre = ''Acme Corp'', c_empresa = None \<rparr>"

section \<open>Properties of the status lifecycle\<close>

lemma getByIdWithTracking_db: "getByIdWithTracking now s i = (r, s1) \<Longrightarrow> db s1 = db s"
  by (auto simp: getByIdWithTracking_def Let_def split: prod.splits option.splits)







text \<open>
  Claim C3. The claim asks that an allowed transition appends an entry to the persisted
  history and stamps the milestone date. The source builds the entry and the extended
  list \<^verbatim>\<open>historialActualizado\<close> but leaves the list out of the data it writes. On a
  stored draft with an empty history, sending the quote succeeds, sets the status and the
  sent date, and the persisted history is still empty.
\<close>

theorem updateStatus_history_not_persisted:
  "fst (updateStatus 1000 ex_tracking ''q1'' ENVIADA (Some ''ok'') (Some ''ana'')) = Inr ()
   \<and> map_option historialCambios
        (map_of (db (snd (updateStatus 1000 ex_tracking ''q1'' ENVIADA (Some ''ok'') (Some ''ana'')))) ''q1'')
      = Some (Some [])
   \<and> map_option estado
        (map_of (db (snd (updateStatus 1000 ex_tracking ''q1'' ENVIADA (Some ''ok'') (Some ''ana'')))) ''q1'')
      = Some (Some ENVIADA)
   \<and> map_option fechaEnvio
        (map_of (db (snd (updateStatus 1000 ex_tracking ''q1'' ENVIADA (Some ''ok'') (Some ''ana'')))) ''q1'')
      = Some (Some 1000)"
  by (simp add: updateStatus_def getByIdWithTracking_def cache_get_def cache_set_def
      mapDocumentToQuoteTracking_def isValidStatusTransition_def transicionesValidas_def
      Let_def updateDoc_def ex_tracking_def invalidateCache_def updateData_def ex_borrador_def)

lemma updateStatus_keeps_history:
  "map (\<lambda>(k, d). (k, historialCambios d)) (db (snd (updateStatus now s i nuevoEstado coment usr)))
     = map (\<lambda>(k, d). (k, historialCambios d)) (db s)"
proof -
  have u: "historialCambios (updateData now nuevoEstado d) = historialCambios d" for d
    by (cases nuevoEstado) (simp_all add: updateData_def)
  have m: "map (\<lambda>(k, d). (k, historialCambios d))
             (map (\<lambda>(k, d). if k = i then (k, updateData now nuevoEstado d) else (k, d)) xs)
           = map (\<lambda>(k, d). (k, historialCambios d)) xs" for xs
    by (induction xs) (auto simp: u)
  obtain r s1 where g: "getByIdWithTracking now s i = (r, s1)" by (cases "getByIdWithTracking now s i")
  from getByIdWithTracking_db [OF g] have d: "db s1 = db s" .
  show ?thesis
    using g d m
    by (auto simp: updateStatus_def Let_def updateDoc_def invalidateCache_def
        split: option.splits if_splits)
qed

section \<open>Properties of the reminder poller\<close>

































section \<open>Properties of the totals\<close>



lemma Math_round_int: "Math_round (of_int k) = k"
  unfolding Math_round_def by linarith


lemma rawSubtotal_spec_aux:
  "foldl (\<lambda>acc item. acc + numOrZero (cantidad item) * itemPrecio item) a items
     = a + (\<Sum>item \<leftarrow> items. numOrZero (cantidad item) * itemPrecio item)"
  by (induction items arbitrary: a) (simp_all add: algebra_simps)

lemma rawSubtotal_sum:
  "rawSubtotal items = (\<Sum>item \<leftarrow> items. numOrZero (cantidad item) * itemPrecio item)"
  by (simp add: rawSubtotal_def rawSubtotal_spec_aux)




section \<open>Properties of the date helpers and the quote number\<close>

lemma Math_round_days: "Math_round (of_int (k * 86400000) / of_int (1000 * 60 * 60 * 24)) = k"
proof -
  have "(of_int (k * 86400000) / of_int (1000 * 60 * 60 * 24) :: rat) = of_int k" by simp
  then show ?thesis by (simp only: Math_round_int)
qed

text \<open>
  Claim C7 says that the duration of an invalid input is 0, as the test of the helper
  expects for \<^verbatim>\<open>calculateDurationInDays(null, null)\<close>. The source answers 1: an
  invalid date makes the difference \<^verbatim>\<open>NaN\<close>, which is not greater than 0, and
  \<^verbatim>\<open>new Date(null)\<close> is the epoch, a valid date. (On valid dates the count is the one
  the claim gives, see \<open>calculateDurationInDays_valid\<close>.)
\<close>

theorem duration_of_invalid_dates_is_one:
  "calculateDurationInDays h (JDateObj None) (JDateObj None) = 1
   \<and> calculateDurationInDays h (JDateObj None) (JDateObj (Some e)) = 1
   \<and> calculateDurationInDays h JUndefined JUndefined = 1
   \<and> calculateDurationInDays h JNull JNull = 1"
proof -
  have "calculateDurationInDays h JNull JNull = 1"
    using Math_round_int [of 0]
    by (cases "setHours0 h (Some 0)")
       (simp_all add: calculateDurationInDays_def Date_new_def Let_def)
  then show ?thesis
    by (simp add: calculateDurationInDays_def Date_new_def Let_def setHours0_def)
qed

lemma calculateDurationInDays_valid:
  assumes "setHours0 h (Some s) = Some s0" and "setHours0 h (Some e) = Some e0"
  shows "calculateDurationInDays h (JDateObj (Some s)) (JDateObj (Some e)) = spec_durationInDays h s e"
proof -
  let ?k = "Day (LocalTime h e) - Day (LocalTime h s)"
  from assms have s0: "s0 = UTC_of_local h (Day (LocalTime h s) * msPerDay)"
    and e0: "e0 = UTC_of_local h (Day (LocalTime h e) * msPerDay)"
    by (auto simp: setHours0_def TimeClip_def split: if_splits)
  have d: "e0 - s0 = ?k * 86400000"
    unfolding s0 e0 by (simp add: UTC_of_local_def msPerDay_def algebra_simps)
  have r: "Math_round (of_int (e0 - s0) / of_int (1000 * 60 * 60 * 24)) = ?k"
    unfolding d by (rule Math_round_days)
  have "Day (LocalTime h e) * msPerDay - Day (LocalTime h s) * msPerDay = ?k * msPerDay"
    by (simp add: left_diff_distrib)
  then have sp: "spec_durationInDays h s e = max 1 (?k + 1)"
    by (simp add: spec_durationInDays_def msPerDay_def)
  show ?thesis
    unfolding sp using assms r
    by (simp add: calculateDurationInDays_def Date_new_def Let_def max_def)
qed

lemma generateQuoteNumber_try_null:
  "generateQuoteNumber_try h now None cliente = Inl TypeError"
  by (simp add: generateQuoteNumber_try_def)

lemma generateQuoteNumber_try_invalid_date:
  "generateQuoteNumber_try h now (Some (q\<lparr>q_numero := None, q_created_at := JDateObj None\<rparr>)) cliente
     = Inl RangeError"
  by (simp add: generateQuoteNumber_try_def truthy_def Date_new_def toISOString_def)

text \<open>
  Claim C8 says that an internal error makes the quote number
  \<^verbatim>\<open>COT-ERROR-<ISO timestamp>\<close>, as the test of the helper expects for a
  \<^verbatim>\<open>null\<close> quote. The \<^verbatim>\<open>catch\<close> branch of the source returns
  \<^verbatim>\<open>COT-001-<today>-CLIENTE-EVENTO\<close> instead, for a \<^verbatim>\<open>null\<close> quote and for a quote
  whose creation date is invalid.
\<close>

theorem generateQuoteNumber_error_fallback:
  "generateQuoteNumber h now None cliente
     = ''COT-001-'' @ removeDashes (getCurrentDateString h now) @ ''-CLIENTE-EVENTO''
   \<and> generateQuoteNumber h now (Some (q\<lparr>q_numero := None, q_created_at := JDateObj None\<rparr>)) cliente
     = ''COT-001-'' @ removeDashes (getCurrentDateString h now) @ ''-CLIENTE-EVENTO''
   \<and> \<not> prefix ''COT-ERROR-'' (generateQuoteNumber h now None cliente)
   \<and> generateQuoteNumber ex_host 1709634030123 None None = ''COT-001-20240305-CLIENTE-EVENTO''"
proof -
  have e: "generateQuoteNumber ex_host 1709634030123 None None = ''COT-001-20240305-CLIENTE-EVENTO''"
    by code_simp
  show ?thesis
    by (simp add: generateQuoteNumber_def generateQuoteNumber_try_null
        generateQuoteNumber_try_invalid_date e [unfolded generateQuoteNumber_def generateQuoteNumber_try_null, simplified])
qed

lemma str_includes_iff: "str_includes s p \<longleftrightarrow> (\<exists>a b. s = a @ p @ b)"
proof (induction s)
  case Nil
  show ?case by auto
next
  case (Cons c cs)
  have "(\<exists>a b. c # cs = a @ p @ b) \<longleftrightarrow> (\<exists>b. c # cs = p @ b) \<or> (\<exists>a b. cs = a @ p @ b)"
  proof
    assume "\<exists>a b. c # cs = a @ p @ b"
    then obtain a b where ab: "c # cs = a @ p @ b" by blast
    show "(\<exists>b. c # cs = p @ b) \<or> (\<exists>a b. cs = a @ p @ b)"
    proof (cases a)
      case Nil
      with ab show ?thesis by auto
    next
      case (Cons x a')
      with ab have "cs = a' @ p @ b" by simp
      then show ?thesis by blast
    qed
  next
    assume "(\<exists>b. c # cs = p @ b) \<or> (\<exists>a b. cs = a @ p @ b)"
    then show "\<exists>a b. c # cs = a @ p @ b"
    proof
      assume "\<exists>b. c # cs = p @ b"
      then obtain b where "c # cs = [] @ p @ b" by auto
      then show ?thesis by blast
    next
      assume "\<exists>a b. cs = a @ p @ b"
      then obtain a b where "c # cs = (c # a) @ p @ b" by auto
      then show ?thesis by blast
    qed
  qed
  with Cons show ?case by (simp add: prefix_def)
qed

text \<open>
  Claim C10. A number that is present, not empty and does not contain the marker
  \<^verbatim>\<open>mvG2cFN4sBXIfjxxnYAL\<close> is returned as it is, whatever its format, the client, the
  clock and the host. In every other case the number plays no part in the result: the
  quote number is built as if there were none. The test for the marker is the test for
  a substring.
\<close>

theorem existing_number_is_kept:
  "(q_numero q = Some n \<and> n \<noteq> [] \<and> \<not> str_includes n PLACEHOLDER_MARK
      \<longrightarrow> generateQuoteNumber h now (Some q) cliente = n)
   \<and> (q_numero q = None \<or> q_numero q = Some []
        \<or> (\<exists>m. q_numero q = Some m \<and> str_includes m PLACEHOLDER_MARK)
      \<longrightarrow> generateQuoteNumber h now (Some q) cliente
          = generateQuoteNumber h now (Some (q\<lparr>q_numero := None\<rparr>)) cliente)
   \<and> (str_includes n PLACEHOLDER_MARK \<longleftrightarrow> (\<exists>a b. n = a @ ''mvG2cFN4sBXIfjxxnYAL'' @ b))"
proof (intro conjI impI)
  assume "q_numero q = Some n \<and> n \<noteq> [] \<and> \<not> str_includes n PLACEHOLDER_MARK"
  then show "generateQuoteNumber h now (Some q) cliente = n"
    by (simp add: generateQuoteNumber_def generateQuoteNumber_try_def)
next
  assume "q_numero q = None \<or> q_numero q = Some []
        \<or> (\<exists>m. q_numero q = Some m \<and> str_includes m PLACEHOLDER_MARK)"
  then have "generateQuoteNumber_try h now (Some q) cliente
      = generateQuoteNumber_try h now (Some (q\<lparr>q_numero := None\<rparr>)) cliente"
    by (cases q) (auto simp: generateQuoteNumber_try_def Let_def split: sum.splits)
  then show "generateQuoteNumber h now (Some q) cliente
          = generateQuoteNumber h now (Some (q\<lparr>q_numero := None\<rparr>)) cliente"
    by (simp add: generateQuoteNumber_def)
next
  show "str_includes n PLACEHOLDER_MARK \<longleftrightarrow> (\<exists>a b. n = a @ ''mvG2cFN4sBXIfjxxnYAL'' @ b)"
    unfolding str_includes_iff PLACEHOLDER_MARK_def ..
qed

text \<open>
  The theorem on a number of no particular format, and on a placeholder.
\<close>

theorem existing_number_is_kept_witness:
  "generateQuoteNumber ex_host 1709634030123
      (Some (ex_quote\<lparr>q_numero := Some ''presupuesto 7/b''\<rparr>)) (Some ex_client)
     = ''presupuesto 7/b''
   \<and> generateQuoteNumber ex_host 1709634030123
      (Some (ex_quote\<lparr>q_numero := Some ''COT-mvG2cFN4sBXIfjxxnYAL''\<rparr>)) (Some ex_client)
     = ''COT-001-20240305-ACMECORP-GALAANUAL''"
proof -
  let ?a = "ex_quote\<lparr>q_numero := Some ''presupuesto 7/b''\<rparr>"
  let ?b = "ex_quote\<lparr>q_numero := Some ''COT-mvG2cFN4sBXIfjxxnYAL''\<rparr>"
  have na: "q_numero ?a = Some ''presupuesto 7/b'' \<and> ''presupuesto 7/b'' \<noteq> []
      \<and> \<not> str_includes ''presupuesto 7/b'' PLACEHOLDER_MARK"
    by (simp add: PLACEHOLDER_MARK_def)
  have nb: "q_numero ?b = None \<or> q_numero ?b = Some []
      \<or> (\<exists>m. q_numero ?b = Some m \<and> str_includes m PLACEHOLDER_MARK)"
    by (simp add: PLACEHOLDER_MARK_def)
  have g: "generateQuoteNumber ex_host 1709634030123 (Some (?b\<lparr>q_numero := None\<rparr>)) (Some ex_client)
      = ''COT-001-20240305-ACMECORP-GALAANUAL''"
    by code_simp
  from existing_number_is_kept
    [of ?a "''presupuesto 7/b''" ex_host 1709634030123 "Some ex_client"] na
  have 1: "generateQuoteNumber ex_host 1709634030123 (Some ?a) (Some ex_client) = ''presupuesto 7/b''"
    by blast
  from existing_number_is_kept [of ?b "[]" ex_host 1709634030123 "Some ex_client"] nb
  have "generateQuoteNumber ex_host 1709634030123 (Some ?b) (Some ex_client)
      = generateQuoteNumber ex_host 1709634030123 (Some (?b\<lparr>q_numero := None\<rparr>)) (Some ex_client)"
    by blast
  with g have 2: "generateQuoteNumber ex_host 1709634030123 (Some ?b) (Some ex_client)
      = ''COT-001-20240305-ACMECORP-GALAANUAL''" by simp
  from 1 2 show ?thesis by (rule conjI)
qed

lemma matchesYMD_length: "matchesYMD s \<Longrightarrow> length s = 10"
  by (simp add: matchesYMD_def)

lemma noon_suffix: "matchesHMS ''T12:00:00'' \<and> parseHMS ''T12:00:00'' = Some 43200000"
  by (simp add: matchesHMS_def parseHMS_def isDigit_def digitVal_def)

lemma parseYMD_day: "parseYMD s = Some t0 \<Longrightarrow> \<exists>n. t0 = n * msPerDay"
  by (auto simp: parseYMD_def Let_def split: if_splits)

lemma safeParseDate_YMD:
  assumes "matchesYMD s" and "parseYMD s = Some t0"
  shows "safeParseDate h (JString s) = Some (Some (t0 + 43200000 - tzMinutes h * 60000))"
proof -
  from assms(1) have l: "length s = 10" by (rule matchesYMD_length)
  then have ne: "s \<noteq> []" by auto
  have n: "\<not> matchesYMD (s @ ''T12:00:00'')" using l by (simp add: matchesYMD_def)
  have p: "Date_parse h (s @ ''T12:00:00'') = Some (UTC_of_local h (t0 + 43200000))"
    using assms l n noon_suffix by (simp add: Date_parse_def)
  show ?thesis
    using assms(1) ne p
    by (simp add: safeParseDate_def truthy_def Date_new_def UTC_of_local_def)
qed

lemma LocalTime_of_local: "LocalTime h (a - tzMinutes h * 60000) = a"
  by (simp add: LocalTime_def)

lemma Day_noon: "Day (n * msPerDay + 43200000) = n"
proof -
  have "(n * 86400000 + 43200000) div 86400000 = n + 43200000 div (86400000 :: int)"
    by (rule div_mult_self3) simp
  also have "\<dots> = n" by simp
  finally show ?thesis unfolding Day_def msPerDay_def .
qed

lemma ex_ymd: "matchesYMD ''2024-01-15'' \<and> parseYMD ''2024-01-15'' = Some (19737 * msPerDay)"
  by (simp add: matchesYMD_def isDigit_def parseYMD_def digitVal_def days_from_civil_def
      daysInMonth_def isLeapYear_def)

lemma ex_civil: "civil_from_days 19737 = (2024, 1, 15)"
  by code_simp

text \<open>
  Claim C9. Whatever the offset of the host's time zone, \<^verbatim>\<open>safeParseDate("2024-01-15")\<close>
  is a date whose local year is 2024, month index 0 and day 15. In general a string
  \<^verbatim>\<open>YYYY-MM-DD\<close> that names a day of the calendar is parsed as noon, local time, of that
  day: the local time of the result is twelve hours after the midnight that begins the
  day named, so its local day is that day, neither the one before nor the one after.
\<close>

theorem safeParseDate_no_day_shift:
  "map_option (getFullYear h) (safeParseDate h (JString ''2024-01-15'')) = Some (Some 2024)
   \<and> map_option (getMonth h) (safeParseDate h (JString ''2024-01-15'')) = Some (Some 0)
   \<and> map_option (getDate h) (safeParseDate h (JString ''2024-01-15'')) = Some (Some 15)
   \<and> (matchesYMD s \<and> parseYMD s = Some t0
      \<longrightarrow> safeParseDate h (JString s) = Some (Some (t0 + 43200000 - tzMinutes h * 60000))
        \<and> LocalTime h (t0 + 43200000 - tzMinutes h * 60000) = t0 + 43200000
        \<and> Day (LocalTime h (t0 + 43200000 - tzMinutes h * 60000)) * msPerDay = t0)"
proof -
  have s: "safeParseDate h (JString ''2024-01-15'')
      = Some (Some (19737 * msPerDay + 43200000 - tzMinutes h * 60000))"
    using ex_ymd by (intro safeParseDate_YMD) blast+
  have d: "Day (LocalTime h (19737 * msPerDay + 43200000 - tzMinutes h * 60000)) = 19737"
    unfolding LocalTime_of_local by (rule Day_noon)
  have ex: "map_option (getFullYear h) (safeParseDate h (JString ''2024-01-15'')) = Some (Some 2024)"
    "map_option (getMonth h) (safeParseDate h (JString ''2024-01-15'')) = Some (Some 0)"
    "map_option (getDate h) (safeParseDate h (JString ''2024-01-15'')) = Some (Some 15)"
    unfolding s getFullYear_def getMonth_def getDate_def YearFromTime_def MonthFromTime_def
      DateFromTime_def option.map d ex_civil
    by simp_all
  have g: "matchesYMD s \<and> parseYMD s = Some t0
      \<longrightarrow> safeParseDate h (JString s) = Some (Some (t0 + 43200000 - tzMinutes h * 60000))
        \<and> LocalTime h (t0 + 43200000 - tzMinutes h * 60000) = t0 + 43200000
        \<and> Day (LocalTime h (t0 + 43200000 - tzMinutes h * 60000)) * msPerDay = t0"
  proof (intro impI conjI)
    assume a: "matchesYMD s \<and> parseYMD s = Some t0"
    from a have a1: "matchesYMD s" and a2: "parseYMD s = Some t0" by blast+
    show "safeParseDate h (JString s) = Some (Some (t0 + 43200000 - tzMinutes h * 60000))"
      using a1 a2 by (rule safeParseDate_YMD)
    show "LocalTime h (t0 + 43200000 - tzMinutes h * 60000) = t0 + 43200000"
      by (rule LocalTime_of_local)
    from a2 obtain n where n: "t0 = n * msPerDay" using parseYMD_day by blast
    show "Day (LocalTime h (t0 + 43200000 - tzMinutes h * 60000)) * msPerDay = t0"
      unfolding LocalTime_of_local unfolding n Day_noon ..
  qed
  from ex g show ?thesis by (intro conjI)
qed

text \<open>
  The theorem on a leap day, three hours west of UTC.
\<close>

theorem safeParseDate_no_day_shift_witness:
  "safeParseDate ex_host (JString ''2024-02-29'') = Some (Some 1709218800000)
   \<and> LocalTime ex_host 1709218800000 = 1709208000000
   \<and> Day (LocalTime ex_host 1709218800000) * msPerDay = 1709164800000
   \<and> map_option (getDate ex_host) (safeParseDate ex_host (JString ''2024-01-15'')) = Some (Some 15)"
proof -
  have m: "matchesYMD ''2024-02-29''" by (simp add: matchesYMD_def isDigit_def)
  have p: "parseYMD ''2024-02-29'' = Some 1709164800000" by code_simp
  note T = safeParseDate_no_day_shift [of ex_host "''2024-02-29''" 1709164800000]
  from T have B: "map_option (getDate ex_host) (safeParseDate ex_host (JString ''2024-01-15''))
      = Some (Some 15)"
    by (rule conjunct1 [OF conjunct2 [OF conjunct2]])
  from T have "matchesYMD ''2024-02-29'' \<and> parseYMD ''2024-02-29'' = Some 1709164800000
      \<longrightarrow> safeParseDate ex_host (JString ''2024-02-29'')
          = Some (Some (1709164800000 + 43200000 - tzMinutes ex_host * 60000))
        \<and> LocalTime ex_host (1709164800000 + 43200000 - tzMinutes ex_host * 60000)
          = 1709164800000 + 43200000
        \<and> Day (LocalTime ex_host (1709164800000 + 43200000 - tzMinutes ex_host * 60000)) * msPerDay
          = 1709164800000"
    by (rule conjunct2 [OF conjunct2 [OF conjunct2]])
  with m p have A: "safeParseDate ex_host (JString ''2024-02-29'')
          = Some (Some (1709164800000 + 43200000 - tzMinutes ex_host * 60000))
        \<and> LocalTime ex_host (1709164800000 + 43200000 - tzMinutes ex_host * 60000)
          = 1709164800000 + 43200000
        \<and> Day (LocalTime ex_host (1709164800000 + 43200000 - tzMinutes ex_host * 60000)) * msPerDay
          = 1709164800000"
    by (elim impE) (rule conjI)
  have e: "1709164800000 + 43200000 - tzMinutes ex_host * 60000 = (1709218800000 :: int)"
    by (simp add: ex_host_def)
  have e2: "(1709164800000 :: int) + 43200000 = 1709208000000" by simp
  note A' = A [unfolded e, unfolded e2]
  from conjunct1 [OF A'] conjunct1 [OF conjunct2 [OF A']] conjunct2 [OF conjunct2 [OF A']] B
  show ?thesis by (intro conjI)
qed

end
